theory Spec2Isabelle
  imports Main "HOL-Library.Char_ord" "HOL-Library.List_Lexorder"
begin

section \<open>Blue/green splitting of Django migrations: the model\<close>

text \<open>
  A shallow embedding of the package \<^verbatim>\<open>bluegreen\<close>: the operation strategies and the
  splitter (\<^verbatim>\<open>operations/\<close>), the SQL builder and validator (\<^verbatim>\<open>sql/\<close>), the migration
  processor and the plan filter (\<^verbatim>\<open>processors/\<close>). Exceptions are values of the type
  \<open>error\<close>; a function that may raise returns \<open>error + 'a\<close>. What the package takes from
  Django at run time (the identifier quoting of the database backend, the application
  registry, the loaded migration graph, the file system) is a parameter of the
  functions that read it.
\<close>

subsection \<open>Python strings\<close>

text \<open>\<^verbatim>\<open>s.endswith(suffix)\<close>.\<close>

definition endswith :: "string \<Rightarrow> string \<Rightarrow> bool" where
  "endswith s suffix =
     (length suffix \<le> length s \<and> drop (length s - length suffix) s = suffix)"

text \<open>\<^verbatim>\<open>sep.join(items)\<close>.\<close>

fun join :: "string \<Rightarrow> string list \<Rightarrow> string" where
  "join sep [] = []"
| "join sep [x] = x"
| "join sep (x # y # ys) = x @ sep @ join sep (y # ys)"

text \<open>
  \<^verbatim>\<open>s.lower()\<close> on the ASCII letters; a \<open>string\<close> is a list of bytes, and the bytes of
  other characters are left as they are.
\<close>

definition lower_char :: "char \<Rightarrow> char" where
  "lower_char c =
     (case map_of (zip ''ABCDEFGHIJKLMNOPQRSTUVWXYZ'' ''abcdefghijklmnopqrstuvwxyz'') c of
        None \<Rightarrow> c
      | Some l \<Rightarrow> l)"

definition lower :: "string \<Rightarrow> string" where
  "lower s = map lower_char s"

text \<open>\<^verbatim>\<open>x or default\<close> for an optional string: \<^verbatim>\<open>None\<close> and \<^verbatim>\<open>''\<close> are both falsy.\<close>

definition truthy :: "string option \<Rightarrow> bool" where
  "truthy x = (case x of None \<Rightarrow> False | Some s \<Rightarrow> s \<noteq> [])"

definition or_default :: "string option \<Rightarrow> string \<Rightarrow> string" where
  "or_default x d = (if truthy x then the x else d)"

text \<open>\<^verbatim>\<open>str(n)\<close> of a natural number.\<close>

fun str_nat :: "nat \<Rightarrow> string" where
  "str_nat n =
     (if n < 10 then [''0123456789'' ! n]
      else str_nat (n div 10) @ [''0123456789'' ! (n mod 10)])"

subsection \<open>constants.py\<close>

definition BLUE_SUFFIX :: string where
  "BLUE_SUFFIX = ''_blue''"

definition GREEN_SUFFIX :: string where
  "GREEN_SUFFIX = ''_green''"

definition apostrophe :: string where
  "apostrophe = [CHR 0x27]"

definition MSG_MODEL_NOT_FOUND :: "string \<Rightarrow> string \<Rightarrow> string" where
  "MSG_MODEL_NOT_FOUND model app =
     ''Model '' @ apostrophe @ model @ apostrophe @ '' not found in app ''
       @ apostrophe @ app @ apostrophe"

definition MSG_FIELD_NOT_FOUND :: "string \<Rightarrow> string \<Rightarrow> string" where
  "MSG_FIELD_NOT_FOUND field model =
     ''Field '' @ apostrophe @ field @ apostrophe @ '' not found in model ''
       @ apostrophe @ model @ apostrophe"

definition MSG_INDEX_NOT_FOUND :: "string \<Rightarrow> string \<Rightarrow> string" where
  "MSG_INDEX_NOT_FOUND index model =
     ''Index '' @ apostrophe @ index @ apostrophe @ '' not found in model ''
       @ apostrophe @ model @ apostrophe"

subsection \<open>Models, fields, indexes and operations\<close>

text \<open>
  Of a Django field the code reads \<^verbatim>\<open>name\<close> and \<^verbatim>\<open>column\<close>, of an index \<^verbatim>\<open>name\<close>, of a
  model class \<^verbatim>\<open>__name__\<close> and, under \<^verbatim>\<open>_meta\<close>, \<^verbatim>\<open>app_label\<close>, \<^verbatim>\<open>db_table\<close>, \<^verbatim>\<open>fields\<close>
  and \<^verbatim>\<open>indexes\<close>. \<^verbatim>\<open>clone()\<close> of a field or of an index is the same value.
\<close>

record db_field =
  field_name :: string
  column :: string

record db_index =
  index_name :: string
  index_fields :: "string list"

record model =
  class_name :: string
  meta_app_label :: string
  meta_db_table :: string
  meta_fields :: "db_field list"
  meta_indexes :: "db_index list"

text \<open>
  The operation classes: those of Django that the package names, the three patched
  subclasses of \<^verbatim>\<open>fields.py\<close>, \<^verbatim>\<open>RunSQL\<close>, and \<open>OtherOperation\<close> for an instance of any
  other class (its class name as argument).
\<close>

datatype operation =
    CreateModel string "(string \<times> db_field) list"
  | CreateModelPatched string "(string \<times> db_field) list" string
  | DeleteModel string
  | RenameModel string string
  | AddField string string db_field bool
  | AddFieldPatched string string db_field string bool
  | RemoveField string string
  | RenameField string string string
  | AddIndex string db_index
  | AddIndexPatched string db_index string
  | RemoveIndex string string
  | RenameIndex string string string
  | AddConstraint string string
  | RemoveConstraint string string
  | AlterModelTable string string
  | AlterUniqueTogether string
  | AlterIndexTogether string
  | AlterModelOptions string
  | AlterField string string db_field
  | AlterOrderWithRespectTo string string
  | AlterModelManagers string
  | RunSQL (sql: string) (reverse_sql: string)
  | OtherOperation string

text \<open>
  The arguments, in the order of the constructors: \<open>CreateModel name fields\<close>,
  \<open>CreateModelPatched name fields old_name\<close>, \<open>DeleteModel name\<close>,
  \<open>RenameModel old_name new_name\<close>, \<open>AddField model_name name field preserve_default\<close>,
  \<open>AddFieldPatched model_name name field old_name preserve_default\<close>,
  \<open>RemoveField model_name name\<close>, \<open>RenameField model_name old_name new_name\<close>,
  \<open>AddIndex model_name index\<close>, \<open>AddIndexPatched model_name index old_name\<close>,
  \<open>RemoveIndex model_name name\<close>, \<open>RenameIndex model_name new_name old_name\<close>,
  \<open>AddConstraint model_name name\<close>, \<open>RemoveConstraint model_name name\<close>.
  A \<^verbatim>\<open>RenameIndex\<close> is taken with its \<^verbatim>\<open>old_name\<close> given (not with \<^verbatim>\<open>old_fields\<close>).
\<close>

text \<open>\<^verbatim>\<open>type(operation)\<close>: the exact class, which a subclass does not share.\<close>

datatype op_class =
    CreateModel_class | CreateModelPatched_class | DeleteModel_class | RenameModel_class
  | AddField_class | AddFieldPatched_class | RemoveField_class | RenameField_class
  | AddIndex_class | AddIndexPatched_class | RemoveIndex_class | RenameIndex_class
  | AddConstraint_class | RemoveConstraint_class
  | AlterModelTable_class | AlterUniqueTogether_class | AlterIndexTogether_class
  | AlterModelOptions_class | AlterField_class | AlterOrderWithRespectTo_class
  | AlterModelManagers_class | RunSQL_class | Other_class string

fun type_of :: "operation \<Rightarrow> op_class" where
  "type_of (CreateModel n fs) = CreateModel_class"
| "type_of (CreateModelPatched n fs old) = CreateModelPatched_class"
| "type_of (DeleteModel n) = DeleteModel_class"
| "type_of (RenameModel old new) = RenameModel_class"
| "type_of (AddField mn n f pd) = AddField_class"
| "type_of (AddFieldPatched mn n f old pd) = AddFieldPatched_class"
| "type_of (RemoveField mn n) = RemoveField_class"
| "type_of (RenameField mn old new) = RenameField_class"
| "type_of (AddIndex mn i) = AddIndex_class"
| "type_of (AddIndexPatched mn i old) = AddIndexPatched_class"
| "type_of (RemoveIndex mn n) = RemoveIndex_class"
| "type_of (RenameIndex mn new old) = RenameIndex_class"
| "type_of (AddConstraint mn n) = AddConstraint_class"
| "type_of (RemoveConstraint mn n) = RemoveConstraint_class"
| "type_of (AlterModelTable n t) = AlterModelTable_class"
| "type_of (AlterUniqueTogether n) = AlterUniqueTogether_class"
| "type_of (AlterIndexTogether n) = AlterIndexTogether_class"
| "type_of (AlterModelOptions n) = AlterModelOptions_class"
| "type_of (AlterField mn n f) = AlterField_class"
| "type_of (AlterOrderWithRespectTo n o') = AlterOrderWithRespectTo_class"
| "type_of (AlterModelManagers n) = AlterModelManagers_class"
| "type_of (RunSQL s r) = RunSQL_class"
| "type_of (OtherOperation c) = Other_class c"

definition IMPOSSIBLE_OPERATIONS :: "op_class list" where
  "IMPOSSIBLE_OPERATIONS =
     [AlterModelTable_class, AlterUniqueTogether_class, AlterIndexTogether_class,
      AlterModelOptions_class, AlterField_class, AlterOrderWithRespectTo_class,
      AlterModelManagers_class]"

text \<open>\<^verbatim>\<open>type(op) in IMPOSSIBLE_OPERATIONS\<close>.\<close>

definition is_impossible :: "operation \<Rightarrow> bool" where
  "is_impossible operation = (type_of operation \<in> set IMPOSSIBLE_OPERATIONS)"

subsection \<open>exceptions.py\<close>

datatype error =
    ImpossibleOperationError "operation list"
  | SchemaValidationError string
  | ModelNotFoundError string
  | FieldNotFoundError string
  | IndexNotFoundError string

subsection \<open>utils.py\<close>

text \<open>
  The application registry of Django: \<open>apps app_label model_name\<close> is the model class,
  and \<open>None\<close> where \<^verbatim>\<open>apps.get_app_config(app_label).get_model(model_name)\<close> raises
  \<^verbatim>\<open>LookupError\<close>.
\<close>

type_synonym registry = "string \<Rightarrow> string \<Rightarrow> model option"

definition get_model_safely :: "registry \<Rightarrow> string \<Rightarrow> string \<Rightarrow> error + model" where
  "get_model_safely apps app model_name =
     (case apps app model_name of
        None \<Rightarrow> Inl (ModelNotFoundError (MSG_MODEL_NOT_FOUND model_name app))
      | Some m \<Rightarrow> Inr m)"

definition get_field_by_name :: "model \<Rightarrow> string \<Rightarrow> error + db_field" where
  "get_field_by_name m name =
     (case filter (\<lambda>f. field_name f = name) (meta_fields m) of
        [] \<Rightarrow> Inl (FieldNotFoundError (MSG_FIELD_NOT_FOUND name (class_name m)))
      | f # _ \<Rightarrow> Inr f)"

definition get_index_by_name :: "model \<Rightarrow> string \<Rightarrow> error + db_index" where
  "get_index_by_name m name =
     (case filter (\<lambda>i. index_name i = name) (meta_indexes m) of
        [] \<Rightarrow> Inl (IndexNotFoundError (MSG_INDEX_NOT_FOUND name (class_name m)))
      | i # _ \<Rightarrow> Inr i)"

text \<open>
  \<^verbatim>\<open>quote_identifier\<close> hands its argument to \<^verbatim>\<open>connection.ops.quote_name\<close> of the
  database backend in use; that function is the parameter \<open>quote_name\<close>.
\<close>

definition quote_identifier :: "(string \<Rightarrow> string) \<Rightarrow> string \<Rightarrow> string" where
  "quote_identifier quote_name identifier = quote_name identifier"

subsection \<open>sql/builder.py\<close>

definition RunSQL_noop :: string where
  "RunSQL_noop = []"

definition build_insert_select ::
  "(string \<Rightarrow> string) \<Rightarrow> string \<Rightarrow> string \<Rightarrow> string list \<Rightarrow> string option \<Rightarrow> operation" where
  "build_insert_select quote_name source_table target_table columns rsql =
     (let source_quoted = quote_identifier quote_name source_table;
          target_quoted = quote_identifier quote_name target_table;
          columns_quoted = map (quote_identifier quote_name) columns;
          columns_list = join '', '' columns_quoted;
          sql_text = ''INSERT INTO '' @ source_quoted @ '' ('' @ columns_list @ '') ''
                   @ ''SELECT '' @ columns_list @ '' FROM '' @ target_quoted
      in RunSQL sql_text (or_default rsql RunSQL_noop))"

definition build_update_field_copy ::
  "(string \<Rightarrow> string) \<Rightarrow> string \<Rightarrow> string \<Rightarrow> string \<Rightarrow> string option \<Rightarrow> string option
     \<Rightarrow> operation" where
  "build_update_field_copy quote_name table new_column old_column where_clause rsql =
     (let table_quoted = quote_identifier quote_name table;
          new_col_quoted = quote_identifier quote_name new_column;
          old_col_quoted = quote_identifier quote_name old_column;
          sql_text = ''UPDATE '' @ table_quoted @ '' SET '' @ new_col_quoted @ '' = ''
                   @ old_col_quoted;
          sql_text = (if truthy where_clause then sql_text @ '' WHERE '' @ the where_clause
                      else sql_text)
      in RunSQL sql_text (or_default rsql RunSQL_noop))"

definition build_column_list_from_model :: "model \<Rightarrow> string list" where
  "build_column_list_from_model m = map column (meta_fields m)"

subsection \<open>sql/validators.py\<close>

definition get_common_columns :: "model \<Rightarrow> model \<Rightarrow> string list" where
  "get_common_columns model_from model_to =
     (let columns_from = set (map column (meta_fields model_from));
          columns_to = set (map column (meta_fields model_to));
          common = columns_from \<inter> columns_to
      in sorted_list_of_set common)"

definition check_safe_for_insert_select :: "model \<Rightarrow> model \<Rightarrow> error + unit" where
  "check_safe_for_insert_select source_model target_model =
     (let common = get_common_columns source_model target_model
      in if common = [] then
           Inl (SchemaValidationError
                  (''No common columns between '' @ class_name source_model
                     @ '' and '' @ class_name target_model))
         else if length common < 1 then
           Inl (SchemaValidationError
                  (''Insufficient common columns between '' @ class_name source_model
                     @ '' and '' @ class_name target_model @ '': ''
                     @ str_nat (length common)))
         else Inr ())"

subsection \<open>operations/strategies.py\<close>

text \<open>
  A strategy returns a pair of tuples, blue and green, whose elements are operations
  or \<^verbatim>\<open>None\<close>. \<open>isinstance\<close> holds of a class and of its subclasses, so the patched
  classes are handled as the classes they extend.
\<close>

type_synonym split_result = "operation option list \<times> operation option list"

datatype strategy = ModelStrategy | FieldStrategy | IndexStrategy | ConstraintStrategy

definition ModelStrategy_can_handle :: "operation \<Rightarrow> bool" where
  "ModelStrategy_can_handle operation =
     (case operation of
        CreateModel n fs \<Rightarrow> True
      | CreateModelPatched n fs old \<Rightarrow> True
      | DeleteModel n \<Rightarrow> True
      | RenameModel old new \<Rightarrow> True
      | _ \<Rightarrow> False)"

definition FieldStrategy_can_handle :: "operation \<Rightarrow> bool" where
  "FieldStrategy_can_handle operation =
     (case operation of
        AddField mn n f pd \<Rightarrow> True
      | AddFieldPatched mn n f old pd \<Rightarrow> True
      | RemoveField mn n \<Rightarrow> True
      | RenameField mn old new \<Rightarrow> True
      | _ \<Rightarrow> False)"

definition IndexStrategy_can_handle :: "operation \<Rightarrow> bool" where
  "IndexStrategy_can_handle operation =
     (case operation of
        AddIndex mn i \<Rightarrow> True
      | AddIndexPatched mn i old \<Rightarrow> True
      | RemoveIndex mn n \<Rightarrow> True
      | RenameIndex mn new old \<Rightarrow> True
      | _ \<Rightarrow> False)"

definition ConstraintStrategy_can_handle :: "operation \<Rightarrow> bool" where
  "ConstraintStrategy_can_handle operation =
     (case operation of
        AddConstraint mn n \<Rightarrow> True
      | RemoveConstraint mn n \<Rightarrow> True
      | _ \<Rightarrow> False)"

text \<open>\<^verbatim>\<open>CreateModelPatched.__init__\<close> pairs every field with its name.\<close>

definition new_CreateModelPatched :: "string \<Rightarrow> db_field list \<Rightarrow> string \<Rightarrow> operation" where
  "new_CreateModelPatched name fs old_name =
     CreateModelPatched name (map (\<lambda>x. (field_name x, x)) fs) old_name"

definition ModelStrategy_split ::
  "(string \<Rightarrow> string) \<Rightarrow> registry \<Rightarrow> operation \<Rightarrow> string \<Rightarrow> error + split_result" where
  "ModelStrategy_split qn apps operation app =
     (case operation of
        CreateModel n fs \<Rightarrow> Inr ([Some operation], [None])
      | CreateModelPatched n fs old \<Rightarrow> Inr ([Some operation], [None])
      | DeleteModel n \<Rightarrow> Inr ([None], [Some operation])
      | RenameModel old_name new_name \<Rightarrow>
          (case get_model_safely apps app new_name of
             Inl e \<Rightarrow> Inl e
           | Inr m \<Rightarrow>
               (let add_operation =
                      new_CreateModelPatched (class_name m) (meta_fields m) old_name;
                    drop_operation = DeleteModel old_name;
                    old_table = meta_app_label m @ ''_'' @ lower old_name;
                    columns = build_column_list_from_model m;
                    run_sql = build_insert_select qn old_table (meta_db_table m) columns None
                in Inr ([Some add_operation, Some run_sql], [Some drop_operation])))
      | _ \<Rightarrow> Inr ([Some operation], [None]))"

definition FieldStrategy_split ::
  "(string \<Rightarrow> string) \<Rightarrow> registry \<Rightarrow> operation \<Rightarrow> string \<Rightarrow> error + split_result" where
  "FieldStrategy_split qn apps operation app =
     (case operation of
        AddField mn n f pd \<Rightarrow> Inr ([Some operation], [None])
      | AddFieldPatched mn n f old pd \<Rightarrow> Inr ([Some operation], [None])
      | RemoveField mn n \<Rightarrow> Inr ([None], [Some operation])
      | RenameField model_name old_name new_name \<Rightarrow>
          (case get_model_safely apps app model_name of
             Inl e \<Rightarrow> Inl e
           | Inr m \<Rightarrow>
               (case get_field_by_name m new_name of
                  Inl e \<Rightarrow> Inl e
                | Inr field \<Rightarrow>
                    (let add_operation =
                           AddFieldPatched (lower (class_name m)) new_name field old_name True;
                         drop_operation = RemoveField (lower (class_name m)) old_name;
                         run_sql = build_update_field_copy qn (meta_db_table m) new_name old_name
                                     None None
                     in Inr ([Some add_operation, Some run_sql], [Some drop_operation]))))
      | _ \<Rightarrow> Inr ([Some operation], [None]))"

definition IndexStrategy_split ::
  "registry \<Rightarrow> operation \<Rightarrow> string \<Rightarrow> error + split_result" where
  "IndexStrategy_split apps operation app =
     (case operation of
        AddIndex mn i \<Rightarrow> Inr ([Some operation], [None])
      | AddIndexPatched mn i old \<Rightarrow> Inr ([Some operation], [None])
      | RemoveIndex mn n \<Rightarrow> Inr ([None], [Some operation])
      | RenameIndex model_name new_name old_name \<Rightarrow>
          (case get_model_safely apps app model_name of
             Inl e \<Rightarrow> Inl e
           | Inr m \<Rightarrow>
               (case get_index_by_name m new_name of
                  Inl e \<Rightarrow> Inl e
                | Inr index \<Rightarrow>
                    (let add_operation =
                           AddIndexPatched (lower (class_name m)) index old_name;
                         drop_operation = RemoveIndex (lower (class_name m)) old_name
                     in Inr ([Some add_operation], [Some drop_operation]))))
      | _ \<Rightarrow> Inr ([Some operation], [None]))"

definition ConstraintStrategy_split :: "operation \<Rightarrow> string \<Rightarrow> error + split_result" where
  "ConstraintStrategy_split operation app =
     (case operation of
        AddConstraint mn n \<Rightarrow> Inr ([Some operation], [None])
      | RemoveConstraint mn n \<Rightarrow> Inr ([None], [Some operation])
      | _ \<Rightarrow> Inr ([Some operation], [None]))"

text \<open>The two methods of a strategy object, by its class.\<close>

fun can_handle :: "strategy \<Rightarrow> operation \<Rightarrow> bool" where
  "can_handle ModelStrategy operation = ModelStrategy_can_handle operation"
| "can_handle FieldStrategy operation = FieldStrategy_can_handle operation"
| "can_handle IndexStrategy operation = IndexStrategy_can_handle operation"
| "can_handle ConstraintStrategy operation = ConstraintStrategy_can_handle operation"

fun split ::
  "(string \<Rightarrow> string) \<Rightarrow> registry \<Rightarrow> strategy \<Rightarrow> operation \<Rightarrow> string \<Rightarrow> error + split_result" where
  "split qn apps ModelStrategy operation app = ModelStrategy_split qn apps operation app"
| "split qn apps FieldStrategy operation app = FieldStrategy_split qn apps operation app"
| "split qn apps IndexStrategy operation app = IndexStrategy_split apps operation app"
| "split qn apps ConstraintStrategy operation app = ConstraintStrategy_split operation app"

subsection \<open>operations/splitter.py\<close>

definition strategies :: "strategy list" where
  "strategies = [ModelStrategy, FieldStrategy, IndexStrategy, ConstraintStrategy]"

text \<open>The loop over the strategies, with the fallback after it.\<close>

fun dispatch ::
  "(string \<Rightarrow> string) \<Rightarrow> registry \<Rightarrow> string \<Rightarrow> strategy list \<Rightarrow> operation \<Rightarrow> error + split_result" where
  "dispatch qn apps app [] operation = Inr ([Some operation], [None])"
| "dispatch qn apps app (s # ss) operation =
     (if can_handle s operation then split qn apps s operation app
      else dispatch qn apps app ss operation)"

definition split_operation ::
  "(string \<Rightarrow> string) \<Rightarrow> registry \<Rightarrow> string \<Rightarrow> operation \<Rightarrow> error + split_result" where
  "split_operation qn apps app operation =
     (if is_impossible operation then Inr ([Some operation], [None])
      else dispatch qn apps app strategies operation)"

text \<open>\<^verbatim>\<open>op for op in blue if op is not None\<close>.\<close>

fun not_none :: "'a option list \<Rightarrow> 'a list" where
  "not_none [] = []"
| "not_none (None # xs) = not_none xs"
| "not_none (Some x # xs) = x # not_none xs"

text \<open>
  The loop of \<^verbatim>\<open>split_operations\<close>, with its two accumulators; an exception of
  \<^verbatim>\<open>split_operation\<close> ends it.
\<close>

fun split_loop ::
  "(string \<Rightarrow> string) \<Rightarrow> registry \<Rightarrow> string \<Rightarrow> operation list \<Rightarrow> operation list
     \<Rightarrow> operation list \<Rightarrow> error + (operation list \<times> operation list)" where
  "split_loop qn apps app blue_ops green_ops [] = Inr (blue_ops, green_ops)"
| "split_loop qn apps app blue_ops green_ops (operation # operations) =
     (case split_operation qn apps app operation of
        Inl e \<Rightarrow> Inl e
      | Inr (blue, green) \<Rightarrow>
          split_loop qn apps app (blue_ops @ not_none blue) (green_ops @ not_none green)
            operations)"

definition split_operations ::
  "(string \<Rightarrow> string) \<Rightarrow> registry \<Rightarrow> string \<Rightarrow> operation list
     \<Rightarrow> error + (operation list \<times> operation list)" where
  "split_operations qn apps app operations = split_loop qn apps app [] [] operations"

definition detect_impossible_operations :: "operation list \<Rightarrow> operation list" where
  "detect_impossible_operations operations = filter is_impossible operations"

subsection \<open>processors/migration_processor.py\<close>

text \<open>
  A dependency is a tuple of strings, \<^verbatim>\<open>(app_label, migration_name)\<close> when it has two
  elements, or an object of another kind.
\<close>

datatype dependency = DepTuple "string list" | DepObject string

record migration =
  mig_name :: string
  mig_app_label :: string
  mig_dependencies :: "dependency list"
  mig_operations :: "operation list"
  mig_replaces :: "(string \<times> string) list"
  mig_run_before :: "(string \<times> string) list"
  mig_initial :: "bool option"

record migration_writer =
  writer_migration :: migration
  writer_include_header :: bool

text \<open>
  The processor with what it reads of its surroundings: the keys of
  \<^verbatim>\<open>loader.graph.nodes\<close>, the directory of every installed application (a path as the
  list of its components, \<open>None\<close> where \<^verbatim>\<open>apps.get_app_config\<close> raises \<^verbatim>\<open>LookupError\<close>),
  and the regular files of the file system.
\<close>

record processor =
  include_header :: bool
  connection_quote_name :: "string \<Rightarrow> string"
  registered_apps :: registry
  graph_nodes :: "(string \<times> string) list"
  app_path :: "string \<Rightarrow> string list option"
  is_file :: "string list \<Rightarrow> bool"

definition migration_file_exists :: "processor \<Rightarrow> string \<Rightarrow> string \<Rightarrow> bool" where
  "migration_file_exists P app migration_name =
     (case app_path P app of
        None \<Rightarrow> False
      | Some path \<Rightarrow> is_file P (path @ [''migrations'', migration_name @ ''.py'']))"

definition fix_dependencies ::
  "processor \<Rightarrow> dependency list \<Rightarrow> string \<Rightarrow> bool \<Rightarrow> dependency list" where
  "fix_dependencies P dependencies current_app_label is_green =
     (let target_suffix = (if is_green then GREEN_SUFFIX else BLUE_SUFFIX)
      in foldl
           (\<lambda>fixed_dependencies dep.
              (case dep of
                 DepTuple [app, migration_name] \<Rightarrow>
                   if endswith migration_name BLUE_SUFFIX \<or> endswith migration_name GREEN_SUFFIX
                   then fixed_dependencies @ [dep]
                   else
                     (let target_name = migration_name @ target_suffix;
                          target_key = (app, target_name)
                      in if target_key \<in> set (graph_nodes P)
                            \<or> migration_file_exists P app target_name
                         then fixed_dependencies @ [DepTuple [app, target_name]]
                         else fixed_dependencies @ [dep])
               | _ \<Rightarrow> fixed_dependencies @ [dep]))
           [] dependencies)"

definition process_migration ::
  "processor \<Rightarrow> migration \<Rightarrow> error + (migration_writer \<times> migration_writer)" where
  "process_migration P m =
     (let impossible = list_ex is_impossible (mig_operations m)
      in if impossible then
           Inl (ImpossibleOperationError (detect_impossible_operations (mig_operations m)))
         else
           (case split_operations (connection_quote_name P) (registered_apps P) (mig_app_label m) (mig_operations m) of
              Inl e \<Rightarrow> Inl e
            | Inr (blue_operations, green_operations) \<Rightarrow>
                (let blue =
                       \<lparr>mig_name = mig_name m @ BLUE_SUFFIX,
                        mig_app_label = mig_app_label m,
                        mig_dependencies =
                          fix_dependencies P (mig_dependencies m) (mig_app_label m) False,
                        mig_operations = blue_operations,
                        mig_replaces = mig_replaces m,
                        mig_run_before = mig_run_before m,
                        mig_initial = mig_initial m\<rparr>;
                     green =
                       \<lparr>mig_name = mig_name m @ GREEN_SUFFIX,
                        mig_app_label = mig_app_label m,
                        mig_dependencies = [DepTuple [mig_app_label blue, mig_name blue]],
                        mig_operations = green_operations,
                        mig_replaces = mig_replaces m,
                        mig_run_before = mig_run_before m,
                        mig_initial = mig_initial m\<rparr>
                 in Inr (\<lparr>writer_migration = blue, writer_include_header = include_header P\<rparr>,
                         \<lparr>writer_migration = green, writer_include_header = include_header P\<rparr>))))"

subsection \<open>processors/plan_filter.py\<close>

text \<open>
  A plan item is a pair of a migration and the flag \<^verbatim>\<open>backwards\<close>. The filter returns
  the plan together with what it writes to \<^verbatim>\<open>stdout\<close>; \<open>has_stdout\<close> holds when a stream
  was given.
\<close>

record plan_filter =
  blue_mode :: bool
  green_mode :: bool
  verbosity :: int
  has_stdout :: bool

definition filter_plan ::
  "plan_filter \<Rightarrow> (migration \<times> bool) list \<Rightarrow> (migration \<times> bool) list \<times> string list" where
  "filter_plan F plan =
     (if blue_mode F then
        (let original_count = length plan;
             filtered_plan = filter (\<lambda>item. \<not> endswith (mig_name (fst item)) ''_green'') plan
         in (filtered_plan,
             if verbosity F \<ge> 1 \<and> original_count \<noteq> length filtered_plan \<and> has_stdout F
             then [''Blue deployment mode: skipping ''
                     @ str_nat (original_count - length filtered_plan)
                     @ '' green migration(s)'' @ [CHR 0x0A]]
             else []))
      else if green_mode F then
        (let original_count = length plan;
             filtered_plan = filter (\<lambda>item. \<not> endswith (mig_name (fst item)) ''_blue'') plan
         in (filtered_plan,
             if verbosity F \<ge> 1 \<and> original_count \<noteq> length filtered_plan \<and> has_stdout F
             then [''Green deployment mode: skipping ''
                     @ str_nat (original_count - length filtered_plan)
                     @ '' blue migration(s)'' @ [CHR 0x0A]]
             else []))
      else (plan, []))"

subsection \<open>Reading an SQL text: what lies outside the quoting delimiters\<close>

text \<open>
  A scan of an SQL text with the quoting delimiter \<open>d\<close> of the backend (the double
  quote, or the backquote of MySQL): every occurrence of \<open>d\<close> opens or closes a quoted
  identifier. \<open>outside_quotes d inq s\<close> is the text of \<open>s\<close> that lies outside the quoted
  identifiers, \<open>inq\<close> telling whether the scan starts inside one, and
  \<open>in_quote_after d inq s\<close> whether it ends inside one.
\<close>

fun outside_quotes :: "char \<Rightarrow> bool \<Rightarrow> string \<Rightarrow> string" where
  "outside_quotes d inq [] = []"
| "outside_quotes d inq (c # cs) =
     (if c = d then outside_quotes d (\<not> inq) cs
      else if inq then outside_quotes d inq cs
      else c # outside_quotes d inq cs)"

fun in_quote_after :: "char \<Rightarrow> bool \<Rightarrow> string \<Rightarrow> bool" where
  "in_quote_after d inq [] = inq"
| "in_quote_after d inq (c # cs) = in_quote_after d (if c = d then \<not> inq else inq) cs"

text \<open>A text that is quoted as a whole: nothing of it is outside, and the quote is closed.\<close>

definition quoted :: "char \<Rightarrow> string \<Rightarrow> bool" where
  "quoted d s = (outside_quotes d False s = [] \<and> \<not> in_quote_after d False s)"

text \<open>The characters of the fixed SQL text that the builder writes around the identifiers.\<close>

definition builder_text :: string where
  "builder_text = ''INSERT INTO ( ) SELECT , FROM UPDATE SET = WHERE''"

text \<open>
  The quoting of the examples in the docstring of \<^verbatim>\<open>quote_identifier\<close>
  (\<^verbatim>\<open>quote_identifier('my_table')\<close> is \<^verbatim>\<open>"my_table"\<close> on PostgreSQL), to run the builder on
  concrete identifiers.
\<close>

definition double_quote :: char where
  "double_quote = CHR 0x22"

definition quote_name_example :: "string \<Rightarrow> string" where
  "quote_name_example identifier = [double_quote] @ identifier @ [double_quote]"

subsection \<open>Notions used to state the properties\<close>

text \<open>
  The operations that a split leaves in the blue phase as they are, and those that it
  moves to the green phase as they are.
\<close>

definition stays_blue :: "operation \<Rightarrow> bool" where
  "stays_blue operation =
     (type_of operation \<notin> {DeleteModel_class, RemoveField_class, RemoveIndex_class,
        RemoveConstraint_class, RenameModel_class, RenameField_class, RenameIndex_class})"

definition stays_green :: "operation \<Rightarrow> bool" where
  "stays_green operation =
     (type_of operation \<in> {DeleteModel_class, RemoveField_class, RemoveIndex_class,
        RemoveConstraint_class})"

text \<open>What one turn of the loop of \<^verbatim>\<open>_fix_dependencies\<close> appends for the dependency \<open>dep\<close>.\<close>

definition fix_dependency :: "processor \<Rightarrow> bool \<Rightarrow> dependency \<Rightarrow> dependency" where
  "fix_dependency P is_green dep =
     (case dep of
        DepTuple [app, migration_name] \<Rightarrow>
          if endswith migration_name BLUE_SUFFIX \<or> endswith migration_name GREEN_SUFFIX
          then dep
          else if (app, migration_name @ (if is_green then GREEN_SUFFIX else BLUE_SUFFIX))
                    \<in> set (graph_nodes P)
                  \<or> migration_file_exists P app
                       (migration_name @ (if is_green then GREEN_SUFFIX else BLUE_SUFFIX))
          then DepTuple [app, migration_name @ (if is_green then GREEN_SUFFIX else BLUE_SUFFIX)]
          else dep
      | _ \<Rightarrow> dep)"

subsection \<open>Sample data\<close>

text \<open>
  An application \<^verbatim>\<open>shop\<close> with one model \<^verbatim>\<open>Book\<close>; an application \<^verbatim>\<open>catalog\<close> with two
  models \<^verbatim>\<open>Code\<close> and \<^verbatim>\<open>Author\<close>, each with a primary key of its own name, that have no
  column in common; a plan of three migrations; a processor that finds
  \<^verbatim>\<open>0011_paycard_blue\<close> in the graph and \<^verbatim>\<open>0005_foo_blue.py\<close> on disk; a migration with four
  dependencies.
\<close>

definition example_model :: model where
  "example_model =
     \<lparr>class_name = ''Book'', meta_app_label = ''shop'', meta_db_table = ''shop_book'',
      meta_fields = [\<lparr>field_name = ''id'', column = ''id''\<rparr>,
                     \<lparr>field_name = ''title'', column = ''title''\<rparr>],
      meta_indexes = [\<lparr>index_name = ''book_title_idx'', index_fields = [''title'']\<rparr>]\<rparr>"

definition example_apps :: registry where
  "example_apps app model_name =
     (if app = ''shop'' \<and> lower model_name = ''book'' then Some example_model else None)"

definition code_model :: model where
  "code_model =
     \<lparr>class_name = ''Code'', meta_app_label = ''catalog'', meta_db_table = ''catalog_code'',
      meta_fields = [\<lparr>field_name = ''code'', column = ''code''\<rparr>,
                     \<lparr>field_name = ''label'', column = ''label''\<rparr>],
      meta_indexes = []\<rparr>"

definition author_model :: model where
  "author_model =
     \<lparr>class_name = ''Author'', meta_app_label = ''catalog'', meta_db_table = ''catalog_author'',
      meta_fields = [\<lparr>field_name = ''author_id'', column = ''author_id''\<rparr>,
                     \<lparr>field_name = ''name'', column = ''name''\<rparr>],
      meta_indexes = []\<rparr>"

definition catalog_apps :: registry where
  "catalog_apps app model_name =
     (if app = ''catalog'' \<and> lower model_name = ''code'' then Some code_model
      else if app = ''catalog'' \<and> lower model_name = ''author'' then Some author_model
      else None)"

definition named :: "string \<Rightarrow> migration" where
  "named n = \<lparr>mig_name = n, mig_app_label = ''shop'', mig_dependencies = [],
              mig_operations = [], mig_replaces = [], mig_run_before = [],
              mig_initial = None\<rparr>"

definition example_plan :: "(migration \<times> bool) list" where
  "example_plan = [(named ''0002_a_blue'', False), (named ''0002_a_green'', False),
                   (named ''0003_b'', False)]"

definition example_processor :: processor where
  "example_processor =
     \<lparr>include_header = True,
      connection_quote_name = quote_name_example,
      registered_apps = example_apps,
      graph_nodes = [(''accounts'', ''0011_paycard_blue''), (''accounts'', ''0011_paycard_green''),
                     (''shop'', ''0001_initial'')],
      app_path = (\<lambda>app. if app = ''appX'' then Some [''srv'', ''appX''] else None),
      is_file = (\<lambda>path. path = [''srv'', ''appX'', ''migrations'', ''0005_foo_blue.py''])\<rparr>"

definition example_migration :: migration where
  "example_migration =
     \<lparr>mig_name = ''0002_rename'', mig_app_label = ''shop'',
      mig_dependencies = [DepTuple [''appX'', ''0005_foo''],
                          DepTuple [''accounts'', ''0011_paycard''],
                          DepTuple [''shop'', ''0001_initial''],
                          DepTuple [''accounts'', ''0010_x_green'']],
      mig_operations = [RenameModel ''Tome'' ''Book'', DeleteModel ''Shelf''],
      mig_replaces = [], mig_run_before = [], mig_initial = None\<rparr>"

section \<open>Properties\<close>

subsection \<open>Splitting one operation\<close>

lemmas can_handle_defs = ModelStrategy_can_handle_def FieldStrategy_can_handle_def
  IndexStrategy_can_handle_def ConstraintStrategy_can_handle_def

lemmas split_defs = ModelStrategy_split_def FieldStrategy_split_def
  IndexStrategy_split_def ConstraintStrategy_split_def

lemmas split_operation_unfold = split_operation_def is_impossible_def IMPOSSIBLE_OPERATIONS_def
  strategies_def can_handle_defs split_defs

lemma lower_examples:
  "lower ''Book'' = ''book''" "lower ''Tome'' = ''tome''" "lower ''book'' = ''book''"
  "lower ''Novel'' = ''novel''"
  by (simp_all add: lower_def lower_char_def)

lemma lower_catalog: "lower ''Author'' = ''author''" "lower ''Code'' = ''code''"
  by (simp_all add: lower_def lower_char_def)

lemma split_operation_impossible:
  "is_impossible operation \<Longrightarrow> split_operation qn apps app operation = Inr ([Some operation], [None])"
  by (simp add: split_operation_def)

lemma stays_blue_split:
  "stays_blue operation \<Longrightarrow> split_operation qn apps app operation = Inr ([Some operation], [None])"
  by (cases operation) (simp_all add: stays_blue_def split_operation_unfold)

lemma stays_green_split:
  "stays_green operation \<Longrightarrow> split_operation qn apps app operation = Inr ([None], [Some operation])"
  by (cases operation) (simp_all add: stays_green_def split_operation_unfold)

lemma is_impossible_stays_blue: "is_impossible operation \<Longrightarrow> stays_blue operation"
  by (cases operation) (simp_all add: is_impossible_def IMPOSSIBLE_OPERATIONS_def stays_blue_def)

lemma split_operation_phases:
  assumes "split_operation qn apps app operation = Inr (blue, green)"
  shows "list_all stays_blue (not_none blue) \<and> list_all stays_green (not_none green)"
  using assms
  by (cases operation)
     (auto simp add: split_operation_unfold stays_blue_def stays_green_def Let_def
        build_insert_select_def build_update_field_copy_def new_CreateModelPatched_def
        split: sum.splits)

text \<open>
  C1 (as amended). For a rename-model or rename-field instruction the data-copy
  instruction is produced by the SQL builder alone: splitting never fails with a
  schema-validation error, and a rename-model whose new model is found yields the create
  instruction and the copy instruction whatever the columns of the model are. The
  validator's \<^verbatim>\<open>check_safe_for_insert_select\<close>, called on two models, fails with a
  schema-validation error exactly when they have no common column, and succeeds
  otherwise.
\<close>

theorem rename_split_without_schema_validation:
  "(\<forall>msg. split_operation qn apps app (RenameModel old_name new_name)
             \<noteq> Inl (SchemaValidationError msg))
   \<and> (\<forall>msg. split_operation qn apps app (RenameField model_name old_name new_name)
             \<noteq> Inl (SchemaValidationError msg))
   \<and> (apps app new_name = Some m \<longrightarrow>
        split_operation qn apps app (RenameModel old_name new_name) =
          Inr ([Some (new_CreateModelPatched (class_name m) (meta_fields m) old_name),
                Some (build_insert_select qn (meta_app_label m @ ''_'' @ lower old_name)
                        (meta_db_table m) (map column (meta_fields m)) None)],
               [Some (DeleteModel old_name)]))
   \<and> ((\<exists>msg. check_safe_for_insert_select a b = Inl (SchemaValidationError msg))
        \<longleftrightarrow> set (map column (meta_fields a)) \<inter> set (map column (meta_fields b)) = {})
   \<and> (check_safe_for_insert_select a b = Inr ()
        \<longleftrightarrow> set (map column (meta_fields a)) \<inter> set (map column (meta_fields b)) \<noteq> {})"
proof (intro conjI allI impI)
  fix msg
  show "split_operation qn apps app (RenameModel old_name new_name)
          \<noteq> Inl (SchemaValidationError msg)"
    by (simp add: split_operation_unfold get_model_safely_def Let_def split: option.splits)
  show "split_operation qn apps app (RenameField model_name old_name new_name)
          \<noteq> Inl (SchemaValidationError msg)"
    by (simp add: split_operation_unfold get_model_safely_def get_field_by_name_def Let_def
          split: option.splits list.splits)
next
  assume "apps app new_name = Some m"
  then show "split_operation qn apps app (RenameModel old_name new_name) =
          Inr ([Some (new_CreateModelPatched (class_name m) (meta_fields m) old_name),
                Some (build_insert_select qn (meta_app_label m @ ''_'' @ lower old_name)
                        (meta_db_table m) (map column (meta_fields m)) None)],
               [Some (DeleteModel old_name)])"
    by (simp add: split_operation_unfold get_model_safely_def build_column_list_from_model_def
          Let_def)
next
  have empty: "get_common_columns a b = [] \<longleftrightarrow>
     set (map column (meta_fields a)) \<inter> set (map column (meta_fields b)) = {}"
    by (simp add: get_common_columns_def Let_def del: set_map)
  show "(\<exists>msg. check_safe_for_insert_select a b = Inl (SchemaValidationError msg))
        \<longleftrightarrow> set (map column (meta_fields a)) \<inter> set (map column (meta_fields b)) = {}"
    by (simp add: check_safe_for_insert_select_def Let_def empty del: set_map)
  show "check_safe_for_insert_select a b = Inr ()
        \<longleftrightarrow> set (map column (meta_fields a)) \<inter> set (map column (meta_fields b)) \<noteq> {}"
    by (simp add: check_safe_for_insert_select_def Let_def empty del: set_map)
qed

text \<open>
  The theorem at the sample applications: the rename to \<^verbatim>\<open>Book\<close> is split, the validator
  rejects \<^verbatim>\<open>Code\<close> against \<^verbatim>\<open>Author\<close> and accepts \<^verbatim>\<open>Book\<close> against itself.
\<close>

theorem rename_split_without_schema_validation_witness:
  "split_operation quote_name_example example_apps ''shop'' (RenameModel ''Tome'' ''Book'') =
     Inr ([Some (new_CreateModelPatched ''Book'' (meta_fields example_model) ''Tome''),
           Some (build_insert_select quote_name_example ''shop_tome'' ''shop_book''
                   [''id'', ''title''] None)],
          [Some (DeleteModel ''Tome'')])
   \<and> (\<exists>msg. check_safe_for_insert_select code_model author_model =
               Inl (SchemaValidationError msg))
   \<and> check_safe_for_insert_select example_model example_model = Inr ()"
  using rename_split_without_schema_validation
          [where apps = example_apps and app = "''shop''" and new_name = "''Book''"
             and m = example_model and old_name = "''Tome''" and qn = quote_name_example
             and a = code_model and b = author_model]
        rename_split_without_schema_validation [where a = example_model and b = example_model]
  by (simp add: example_apps_def lower_examples example_model_def code_model_def
        author_model_def)

text \<open>
  C1 as stated fails. The registered models \<^verbatim>\<open>Code\<close> (columns \<^verbatim>\<open>code\<close>, \<^verbatim>\<open>label\<close>) and
  \<^verbatim>\<open>Author\<close> (columns \<^verbatim>\<open>author_id\<close>, \<^verbatim>\<open>name\<close>) have no common column, and the validator
  rejects the pair; the rename of \<^verbatim>\<open>Code\<close> to \<^verbatim>\<open>Author\<close> is split all the same, with the
  copy instruction between the two tables in the blue tuple.
\<close>

theorem rename_split_zero_columns_counterexample:
  "get_common_columns code_model author_model = []
   \<and> check_safe_for_insert_select code_model author_model =
       Inl (SchemaValidationError ''No common columns between Code and Author'')
   \<and> split_operation quote_name_example catalog_apps ''catalog''
       (RenameModel ''Code'' ''Author'') =
       Inr ([Some (CreateModelPatched ''Author''
                     [(''author_id'', \<lparr>field_name = ''author_id'', column = ''author_id''\<rparr>),
                      (''name'', \<lparr>field_name = ''name'', column = ''name''\<rparr>)] ''Code''),
             Some (RunSQL (''INSERT INTO '' @ quote_name_example ''catalog_code''
                             @ '' ('' @ quote_name_example ''author_id'' @ '', ''
                             @ quote_name_example ''name'' @ '') SELECT ''
                             @ quote_name_example ''author_id'' @ '', ''
                             @ quote_name_example ''name''
                             @ '' FROM '' @ quote_name_example ''catalog_author'') [])],
            [Some (DeleteModel ''Code'')])"
proof -
  have c: "get_common_columns code_model author_model = []"
    by (simp add: get_common_columns_def code_model_def author_model_def)
  have v: "check_safe_for_insert_select code_model author_model =
       Inl (SchemaValidationError ''No common columns between Code and Author'')"
    by (simp add: check_safe_for_insert_select_def c) (simp add: code_model_def author_model_def)
  have s: "split_operation quote_name_example catalog_apps ''catalog''
       (RenameModel ''Code'' ''Author'') =
       Inr ([Some (CreateModelPatched ''Author''
                     [(''author_id'', \<lparr>field_name = ''author_id'', column = ''author_id''\<rparr>),
                      (''name'', \<lparr>field_name = ''name'', column = ''name''\<rparr>)] ''Code''),
             Some (RunSQL (''INSERT INTO '' @ quote_name_example ''catalog_code''
                             @ '' ('' @ quote_name_example ''author_id'' @ '', ''
                             @ quote_name_example ''name'' @ '') SELECT ''
                             @ quote_name_example ''author_id'' @ '', ''
                             @ quote_name_example ''name''
                             @ '' FROM '' @ quote_name_example ''catalog_author'') [])],
            [Some (DeleteModel ''Code'')])"
    by (simp add: author_model_def catalog_apps_def lower_catalog split_operation_unfold
          get_model_safely_def new_CreateModelPatched_def build_insert_select_def
          build_column_list_from_model_def quote_identifier_def or_default_def truthy_def
          RunSQL_noop_def Let_def)
  from c v s show ?thesis by simp
qed

text \<open>
  C2. The split of a rename-model at the sample application, renaming \<^verbatim>\<open>Tome\<close> to
  \<^verbatim>\<open>Book\<close>: the table after \<^verbatim>\<open>INSERT INTO\<close> is the old table \<^verbatim>\<open>shop_tome\<close> and the table
  after \<^verbatim>\<open>FROM\<close> is the table \<^verbatim>\<open>shop_book\<close> of the new model, the reverse of the direction
  that the claim and the parameter names \<^verbatim>\<open>source_table\<close> and \<^verbatim>\<open>target_table\<close> state.
\<close>

theorem rename_model_copy_direction:
  "split_operation quote_name_example example_apps ''shop'' (RenameModel ''Tome'' ''Book'') =
     Inr ([Some (CreateModelPatched ''Book''
                   [(''id'', \<lparr>field_name = ''id'', column = ''id''\<rparr>),
                    (''title'', \<lparr>field_name = ''title'', column = ''title''\<rparr>)] ''Tome''),
           Some (RunSQL (''INSERT INTO '' @ quote_name_example ''shop_tome''
                           @ '' ('' @ quote_name_example ''id'' @ '', ''
                           @ quote_name_example ''title'' @ '') SELECT ''
                           @ quote_name_example ''id'' @ '', '' @ quote_name_example ''title''
                           @ '' FROM '' @ quote_name_example ''shop_book'') [])],
          [Some (DeleteModel ''Tome'')])"
  by (simp add: example_model_def example_apps_def lower_examples split_operation_unfold
        get_model_safely_def new_CreateModelPatched_def build_insert_select_def
        build_column_list_from_model_def quote_identifier_def or_default_def truthy_def
        RunSQL_noop_def Let_def)

text \<open>
  C3. For every create-model, add-field, add-index or add-constraint instruction (the
  patched subclasses included), \<^verbatim>\<open>split_operation\<close> returns the instruction alone in the
  blue tuple and \<^verbatim>\<open>None\<close> alone in the green tuple; for every delete-model, remove-field,
  remove-index or remove-constraint instruction it returns \<^verbatim>\<open>None\<close> alone in blue and the
  instruction alone in green.
\<close>

theorem split_operation_additive_destructive:
  "(type_of operation \<in> {CreateModel_class, CreateModelPatched_class, AddField_class,
                            AddFieldPatched_class, AddIndex_class, AddIndexPatched_class,
                            AddConstraint_class}
      \<longrightarrow> split_operation qn apps app operation = Inr ([Some operation], [None]))
   \<and> (type_of operation \<in> {DeleteModel_class, RemoveField_class, RemoveIndex_class,
                            RemoveConstraint_class}
      \<longrightarrow> split_operation qn apps app operation = Inr ([None], [Some operation]))"
  by (cases operation) (simp_all add: split_operation_unfold)

theorem split_operation_additive_destructive_witness:
  "split_operation quote_name_example example_apps ''shop''
      (CreateModel ''Book'' [(''id'', \<lparr>field_name = ''id'', column = ''id''\<rparr>)])
     = Inr ([Some (CreateModel ''Book'' [(''id'', \<lparr>field_name = ''id'', column = ''id''\<rparr>)])],
            [None])
   \<and> split_operation quote_name_example example_apps ''shop'' (RemoveField ''book'' ''isbn'')
     = Inr ([None], [Some (RemoveField ''book'' ''isbn'')])"
  using split_operation_additive_destructive
          [of "CreateModel ''Book'' [(''id'', \<lparr>field_name = ''id'', column = ''id''\<rparr>)]"
              quote_name_example example_apps "''shop''"]
        split_operation_additive_destructive
          [of "RemoveField ''book'' ''isbn''" quote_name_example example_apps "''shop''"]
  by simp

text \<open>
  C4 (as amended). For every rename-model, rename-field or rename-index instruction
  whose model is found in the application registry (and, for a field or an index, whose
  new field or index is found in the model), splitting yields a blue tuple that holds the
  create or add variant carrying the old name, and a green tuple that holds exactly one
  delete or remove of the old name; for rename-model and rename-field the blue tuple
  holds exactly one more element, the data-copy \<^verbatim>\<open>RunSQL\<close> instruction.
\<close>

theorem split_operation_rename:
  "(apps app new_name = Some m \<longrightarrow>
      split_operation qn apps app (RenameModel old_name new_name) =
        Inr ([Some (CreateModelPatched (class_name m)
                      (map (\<lambda>x. (field_name x, x)) (meta_fields m)) old_name),
              Some (build_insert_select qn (meta_app_label m @ ''_'' @ lower old_name)
                      (meta_db_table m) (map column (meta_fields m)) None)],
             [Some (DeleteModel old_name)]))
   \<and> (apps app model_name = Some m \<and> get_field_by_name m new_name = Inr field \<longrightarrow>
      split_operation qn apps app (RenameField model_name old_name new_name) =
        Inr ([Some (AddFieldPatched (lower (class_name m)) new_name field old_name True),
              Some (build_update_field_copy qn (meta_db_table m) new_name old_name None None)],
             [Some (RemoveField (lower (class_name m)) old_name)]))
   \<and> (apps app model_name = Some m \<and> get_index_by_name m new_name = Inr index \<longrightarrow>
      split_operation qn apps app (RenameIndex model_name new_name old_name) =
        Inr ([Some (AddIndexPatched (lower (class_name m)) index old_name)],
             [Some (RemoveIndex (lower (class_name m)) old_name)]))
   \<and> type_of (build_insert_select qn source_table target_table columns rsql) = RunSQL_class
   \<and> type_of (build_update_field_copy qn table new_column old_column where_clause rsql)
       = RunSQL_class"
  by (simp add: split_operation_unfold get_model_safely_def build_column_list_from_model_def
        new_CreateModelPatched_def build_insert_select_def build_update_field_copy_def Let_def)

theorem split_operation_rename_witness:
  "split_operation quote_name_example example_apps ''shop'' (RenameModel ''Tome'' ''Book'') =
     Inr ([Some (CreateModelPatched ''Book''
                   [(''id'', \<lparr>field_name = ''id'', column = ''id''\<rparr>),
                    (''title'', \<lparr>field_name = ''title'', column = ''title''\<rparr>)] ''Tome''),
           Some (build_insert_select quote_name_example ''shop_tome'' ''shop_book''
                   [''id'', ''title''] None)],
          [Some (DeleteModel ''Tome'')])
   \<and> split_operation quote_name_example example_apps ''shop''
       (RenameField ''book'' ''name'' ''title'') =
     Inr ([Some (AddFieldPatched ''book'' ''title'' \<lparr>field_name = ''title'', column = ''title''\<rparr>
                   ''name'' True),
           Some (build_update_field_copy quote_name_example ''shop_book'' ''title'' ''name''
                   None None)],
          [Some (RemoveField ''book'' ''name'')])
   \<and> split_operation quote_name_example example_apps ''shop''
       (RenameIndex ''book'' ''book_title_idx'' ''book_name_idx'') =
     Inr ([Some (AddIndexPatched ''book''
                   \<lparr>index_name = ''book_title_idx'', index_fields = [''title'']\<rparr>
                   ''book_name_idx'')],
          [Some (RemoveIndex ''book'' ''book_name_idx'')])"
  using split_operation_rename
          [where apps = example_apps and app = "''shop''" and new_name = "''Book''"
             and m = example_model and old_name = "''Tome''" and qn = quote_name_example]
        split_operation_rename
          [where apps = example_apps and app = "''shop''" and model_name = "''book''"
             and new_name = "''title''" and old_name = "''name''" and m = example_model
             and field = "\<lparr>field_name = ''title'', column = ''title''\<rparr>"
             and qn = quote_name_example]
        split_operation_rename
          [where apps = example_apps and app = "''shop''" and model_name = "''book''"
             and new_name = "''book_title_idx''" and old_name = "''book_name_idx''"
             and m = example_model
             and index = "\<lparr>index_name = ''book_title_idx'', index_fields = [''title'']\<rparr>"
             and qn = quote_name_example]
  by (simp add: example_apps_def lower_examples example_model_def get_field_by_name_def
        get_index_by_name_def)

text \<open>
  C4 as stated fails: renaming \<^verbatim>\<open>Book\<close> to \<^verbatim>\<open>Novel\<close> when the registry has no model
  \<^verbatim>\<open>Novel\<close> raises \<^verbatim>\<open>ModelNotFoundError\<close>, and there is neither a blue nor a green tuple.
\<close>

theorem split_operation_rename_not_found_counterexample:
  "split_operation quote_name_example example_apps ''shop'' (RenameModel ''Book'' ''Novel'') =
     Inl (ModelNotFoundError (MSG_MODEL_NOT_FOUND ''Novel'' ''shop''))"
  by (simp add: example_apps_def lower_examples split_operation_unfold get_model_safely_def)

subsection \<open>Splitting a list of operations\<close>

lemma split_loop_acc:
  "split_loop qn apps app blue_ops green_ops operations =
     (case split_loop qn apps app [] [] operations of
        Inl e \<Rightarrow> Inl e
      | Inr (b, g) \<Rightarrow> Inr (blue_ops @ b, green_ops @ g))"
proof (induction operations arbitrary: blue_ops green_ops)
  case Nil
  then show ?case by simp
next
  case (Cons operation operations)
  show ?case
  proof (cases "split_operation qn apps app operation")
    case (Inl e)
    then show ?thesis by simp
  next
    case (Inr r)
    obtain blue green where r: "r = (blue, green)" by (cases r)
    show ?thesis
      using Inr r
      by (simp add: Cons.IH [of "blue_ops @ not_none blue" "green_ops @ not_none green"]
            Cons.IH [of "not_none blue" "not_none green"] split: sum.splits)
  qed
qed

lemma split_operations_Nil: "split_operations qn apps app [] = Inr ([], [])"
  by (simp add: split_operations_def)

lemma split_operations_Cons:
  "split_operations qn apps app (operation # operations) =
     (case split_operation qn apps app operation of
        Inl e \<Rightarrow> Inl e
      | Inr (blue, green) \<Rightarrow>
          (case split_operations qn apps app operations of
             Inl e \<Rightarrow> Inl e
           | Inr (b, g) \<Rightarrow> Inr (not_none blue @ b, not_none green @ g)))"
  by (simp add: split_operations_def split_loop_acc [of _ _ _ "not_none _" "not_none _"]
        split: sum.splits prod.splits)

lemma split_operations_append:
  "split_operations qn apps app (xs @ ys) =
     (case split_operations qn apps app xs of
        Inl e \<Rightarrow> Inl e
      | Inr (b1, g1) \<Rightarrow>
          (case split_operations qn apps app ys of
             Inl e \<Rightarrow> Inl e
           | Inr (b2, g2) \<Rightarrow> Inr (b1 @ b2, g1 @ g2)))"
proof (induction xs)
  case Nil
  then show ?case by (simp add: split_operations_Nil split: sum.splits)
next
  case (Cons x xs)
  then show ?case
    by (simp add: split_operations_Cons split: sum.splits prod.splits)
qed

lemma split_operations_phases:
  "split_operations qn apps app operations = Inr (b, g)
   \<Longrightarrow> list_all stays_blue b \<and> list_all stays_green g"
proof (induction operations arbitrary: b g)
  case Nil
  then show ?case by (simp add: split_operations_Nil)
next
  case (Cons operation operations)
  from Cons.prems obtain blue green b' g' where
    s1: "split_operation qn apps app operation = Inr (blue, green)" and
    s2: "split_operations qn apps app operations = Inr (b', g')" and
    bg: "b = not_none blue @ b'" "g = not_none green @ g'"
    by (auto simp add: split_operations_Cons split: sum.splits prod.splits)
  from split_operation_phases [OF s1] Cons.IH [OF s2] bg show ?case by simp
qed

lemma split_operations_stays_blue:
  "list_all stays_blue operations \<Longrightarrow> split_operations qn apps app operations = Inr (operations, [])"
  by (induction operations) (simp_all add: split_operations_Nil split_operations_Cons stays_blue_split)

lemma split_operations_stays_green:
  "list_all stays_green operations \<Longrightarrow> split_operations qn apps app operations = Inr ([], operations)"
  by (induction operations) (simp_all add: split_operations_Nil split_operations_Cons stays_green_split)

lemma example_split:
  "split_operations quote_name_example example_apps ''shop''
     [RenameModel ''Tome'' ''Book'', DeleteModel ''Shelf''] =
   Inr ([new_CreateModelPatched ''Book'' (meta_fields example_model) ''Tome'',
         build_insert_select quote_name_example ''shop_tome'' ''shop_book'' [''id'', ''title''] None],
        [DeleteModel ''Tome'', DeleteModel ''Shelf''])"
  by (simp add: split_operations_def split_operation_unfold get_model_safely_def
        example_apps_def example_model_def lower_def lower_char_def
        build_column_list_from_model_def Let_def)

subsection \<open>The migration processor\<close>

text \<open>
  C5. For any migration with at least one instruction whose class is in
  \<^verbatim>\<open>IMPOSSIBLE_OPERATIONS\<close>, \<^verbatim>\<open>process_migration\<close> raises \<^verbatim>\<open>ImpossibleOperationError\<close> with the
  list of the offending instructions; the result is the error, so neither the blue nor
  the green migration is returned.
\<close>

theorem process_migration_impossible:
  assumes "list_ex is_impossible (mig_operations m)"
  shows "process_migration P m =
           Inl (ImpossibleOperationError (filter is_impossible (mig_operations m)))"
  using assms by (simp add: process_migration_def detect_impossible_operations_def)

theorem process_migration_impossible_witness:
  "process_migration example_processor
     (example_migration\<lparr>mig_operations :=
        [RenameModel ''Tome'' ''Book'', AlterModelTable ''book'' ''library_book'',
         AlterUniqueTogether ''book'']\<rparr>) =
   Inl (ImpossibleOperationError
          [AlterModelTable ''book'' ''library_book'', AlterUniqueTogether ''book''])"
  using process_migration_impossible [of "example_migration\<lparr>mig_operations :=
        [RenameModel ''Tome'' ''Book'', AlterModelTable ''book'' ''library_book'',
         AlterUniqueTogether ''book'']\<rparr>" example_processor]
  by (simp add: is_impossible_def IMPOSSIBLE_OPERATIONS_def)

lemma foldl_append_one:
  "(\<And>acc x. f acc x = acc @ [g x]) \<Longrightarrow> foldl f acc xs = acc @ map g xs"
  by (induction xs arbitrary: acc) simp_all

lemma fix_dependencies_map:
  "fix_dependencies P dependencies current_app_label is_green =
     map (fix_dependency P is_green) dependencies"
  unfolding fix_dependencies_def Let_def
  by (subst foldl_append_one [where g = "fix_dependency P is_green"])
     (auto simp add: fix_dependency_def split: dependency.splits list.splits)

lemma fix_dependencies_nth:
  assumes "i < length dependencies"
  shows "fix_dependencies P dependencies current_app_label is_green ! i =
           fix_dependency P is_green (dependencies ! i)"
  using assms by (simp add: fix_dependencies_map)

text \<open>
  C6. For every migration that \<^verbatim>\<open>process_migration\<close> turns into a blue and a green
  migration: the green migration depends on exactly one migration, the blue one of its
  own application; the blue migration has the dependencies of the source in their
  order, where a dependency whose name ends in \<^verbatim>\<open>_blue\<close> or \<^verbatim>\<open>_green\<close> is unchanged, and any
  other \<^verbatim>\<open>(app, name)\<close> becomes \<^verbatim>\<open>(app, name_blue)\<close> exactly when that key is in the loaded
  graph or its file is on disk, and is unchanged otherwise.
\<close>

theorem process_migration_dependencies:
  assumes "process_migration P m = Inr (blue_writer, green_writer)"
  shows "mig_dependencies (writer_migration green_writer) =
           [DepTuple [mig_app_label m, mig_name m @ BLUE_SUFFIX]]
         \<and> length (mig_dependencies (writer_migration blue_writer)) =
             length (mig_dependencies m)
         \<and> (\<forall>i < length (mig_dependencies m). \<forall>app n.
               mig_dependencies m ! i = DepTuple [app, n] \<longrightarrow>
               mig_dependencies (writer_migration blue_writer) ! i =
                 (if endswith n BLUE_SUFFIX \<or> endswith n GREEN_SUFFIX then DepTuple [app, n]
                  else if (app, n @ BLUE_SUFFIX) \<in> set (graph_nodes P)
                          \<or> migration_file_exists P app (n @ BLUE_SUFFIX)
                       then DepTuple [app, n @ BLUE_SUFFIX]
                       else DepTuple [app, n]))"
proof -
  from assms have
    g: "mig_dependencies (writer_migration green_writer) =
          [DepTuple [mig_app_label m, mig_name m @ BLUE_SUFFIX]]" and
    b: "mig_dependencies (writer_migration blue_writer) =
          fix_dependencies P (mig_dependencies m) (mig_app_label m) False"
    by (auto simp add: process_migration_def Let_def split: if_splits sum.splits prod.splits)
  have "length (mig_dependencies (writer_migration blue_writer)) = length (mig_dependencies m)"
    by (simp add: b fix_dependencies_map)
  moreover have "\<forall>i < length (mig_dependencies m). \<forall>app n.
               mig_dependencies m ! i = DepTuple [app, n] \<longrightarrow>
               mig_dependencies (writer_migration blue_writer) ! i =
                 (if endswith n BLUE_SUFFIX \<or> endswith n GREEN_SUFFIX then DepTuple [app, n]
                  else if (app, n @ BLUE_SUFFIX) \<in> set (graph_nodes P)
                          \<or> migration_file_exists P app (n @ BLUE_SUFFIX)
                       then DepTuple [app, n @ BLUE_SUFFIX]
                       else DepTuple [app, n])"
    by (simp add: b fix_dependencies_nth fix_dependency_def)
  ultimately show ?thesis using g by simp
qed

lemma example_no_impossible:
  "\<not> list_ex is_impossible (mig_operations example_migration)"
  by (simp add: example_migration_def is_impossible_def IMPOSSIBLE_OPERATIONS_def)

theorem process_migration_dependencies_witness:
  "\<exists>blue_writer green_writer.
     process_migration example_processor example_migration = Inr (blue_writer, green_writer)
     \<and> mig_dependencies (writer_migration green_writer) =
         [DepTuple [''shop'', ''0002_rename_blue'']]
     \<and> mig_dependencies (writer_migration blue_writer) ! 0 = DepTuple [''appX'', ''0005_foo_blue'']
     \<and> mig_dependencies (writer_migration blue_writer) ! 1 =
         DepTuple [''accounts'', ''0011_paycard_blue'']
     \<and> mig_dependencies (writer_migration blue_writer) ! 2 = DepTuple [''shop'', ''0001_initial'']
     \<and> mig_dependencies (writer_migration blue_writer) ! 3 =
         DepTuple [''accounts'', ''0010_x_green'']"
proof -
  obtain bw gw where r: "process_migration example_processor example_migration = Inr (bw, gw)"
    using example_no_impossible
    by (simp add: process_migration_def example_processor_def example_migration_def
          example_split Let_def)
  note c = process_migration_dependencies [OF r]
  note nth = c [THEN conjunct2, THEN conjunct2, rule_format]
  have g: "mig_dependencies (writer_migration gw) = [DepTuple [''shop'', ''0002_rename_blue'']]"
    using c by (simp add: example_migration_def BLUE_SUFFIX_def)
  have d0: "mig_dependencies (writer_migration bw) ! 0 = DepTuple [''appX'', ''0005_foo_blue'']"
    using nth [of 0 "''appX''" "''0005_foo''"]
    by (simp add: example_migration_def example_processor_def BLUE_SUFFIX_def GREEN_SUFFIX_def
          endswith_def migration_file_exists_def)
  have d1: "mig_dependencies (writer_migration bw) ! 1 =
              DepTuple [''accounts'', ''0011_paycard_blue'']"
    using nth [of 1 "''accounts''" "''0011_paycard''"]
    by (simp add: example_migration_def example_processor_def BLUE_SUFFIX_def GREEN_SUFFIX_def
          endswith_def migration_file_exists_def)
  have d2: "mig_dependencies (writer_migration bw) ! 2 = DepTuple [''shop'', ''0001_initial'']"
    using nth [of 2 "''shop''" "''0001_initial''"]
    by (simp add: example_migration_def example_processor_def BLUE_SUFFIX_def GREEN_SUFFIX_def
          endswith_def migration_file_exists_def)
  have d3: "mig_dependencies (writer_migration bw) ! 3 = DepTuple [''accounts'', ''0010_x_green'']"
    using nth [of 3 "''accounts''" "''0010_x_green''"]
    by (simp add: example_migration_def example_processor_def BLUE_SUFFIX_def GREEN_SUFFIX_def
          endswith_def migration_file_exists_def)
  from r g d0 d1 d2 d3 show ?thesis by blast
qed

subsection \<open>The plan filter\<close>

text \<open>
  C7. For every plan, the filter in blue mode returns exactly the items whose migration
  name does not end in \<^verbatim>\<open>_green\<close>, in their order; in green mode (and not blue mode, the
  two being exclusive for the caller) exactly the items whose name does not end in
  \<^verbatim>\<open>_blue\<close>, in their order; in neither mode the plan itself.
\<close>

theorem filter_plan_modes:
  "(blue_mode F \<longrightarrow>
      fst (filter_plan F plan) =
        filter (\<lambda>item. \<not> endswith (mig_name (fst item)) GREEN_SUFFIX) plan)
   \<and> (\<not> blue_mode F \<and> green_mode F \<longrightarrow>
      fst (filter_plan F plan) =
        filter (\<lambda>item. \<not> endswith (mig_name (fst item)) BLUE_SUFFIX) plan)
   \<and> (\<not> blue_mode F \<and> \<not> green_mode F \<longrightarrow> fst (filter_plan F plan) = plan)"
  by (simp add: filter_plan_def Let_def GREEN_SUFFIX_def BLUE_SUFFIX_def)

lemma endswith_examples:
  "\<not> endswith ''0002_a_blue'' ''_green''" "endswith ''0002_a_green'' ''_green''"
  "\<not> endswith ''0003_b'' ''_green''"
  "endswith ''0002_a_blue'' ''_blue''" "\<not> endswith ''0002_a_green'' ''_blue''"
  "\<not> endswith ''0003_b'' ''_blue''"
  by (simp_all add: endswith_def)

text \<open>The plan \<^verbatim>\<open>[blue_A, green_A, vanilla_B]\<close> of the specification, in the three modes.\<close>

theorem filter_plan_modes_witness:
  "fst (filter_plan \<lparr>blue_mode = True, green_mode = False, verbosity = 1, has_stdout = True\<rparr>
          example_plan)
     = [(named ''0002_a_blue'', False), (named ''0003_b'', False)]
   \<and> fst (filter_plan \<lparr>blue_mode = False, green_mode = True, verbosity = 1, has_stdout = True\<rparr>
          example_plan)
     = [(named ''0002_a_green'', False), (named ''0003_b'', False)]
   \<and> fst (filter_plan \<lparr>blue_mode = False, green_mode = False, verbosity = 1, has_stdout = True\<rparr>
          example_plan)
     = example_plan"
  using filter_plan_modes [of "\<lparr>blue_mode = True, green_mode = False, verbosity = 1, has_stdout = True\<rparr>"
              example_plan]
        filter_plan_modes [of "\<lparr>blue_mode = False, green_mode = True, verbosity = 1, has_stdout = True\<rparr>"
              example_plan]
        filter_plan_modes [of "\<lparr>blue_mode = False, green_mode = False, verbosity = 1, has_stdout = True\<rparr>"
              example_plan]
  by (simp add: example_plan_def named_def endswith_examples GREEN_SUFFIX_def BLUE_SUFFIX_def)

subsection \<open>The SQL builder\<close>

lemma outside_quotes_append:
  "outside_quotes d inq (s @ t) =
     outside_quotes d inq s @ outside_quotes d (in_quote_after d inq s) t"
  by (induction s arbitrary: inq) simp_all

lemma in_quote_after_append:
  "in_quote_after d inq (s @ t) = in_quote_after d (in_quote_after d inq s) t"
  by (induction s arbitrary: inq) simp_all

lemma plain_text:
  "d \<notin> set s \<Longrightarrow> outside_quotes d False s = s \<and> \<not> in_quote_after d False s"
  by (induction s) auto

lemma inside_text:
  "d \<notin> set s \<Longrightarrow> outside_quotes d True s = [] \<and> in_quote_after d True s"
  by (induction s) auto

lemma plain_then:
  "d \<notin> set s \<Longrightarrow> outside_quotes d False (s @ t) = s @ outside_quotes d False t"
  "d \<notin> set s \<Longrightarrow> in_quote_after d False (s @ t) = in_quote_after d False t"
  by (simp_all add: outside_quotes_append in_quote_after_append plain_text)

lemma quoted_then:
  "quoted d s \<Longrightarrow> outside_quotes d False (s @ t) = outside_quotes d False t"
  "quoted d s \<Longrightarrow> in_quote_after d False (s @ t) = in_quote_after d False t"
  by (simp_all add: outside_quotes_append in_quote_after_append quoted_def)

lemma joined_then:
  assumes "\<forall>x \<in> set xs. quoted d (qn x)" and "d \<notin> set sep"
  shows "outside_quotes d False (join sep (map qn xs) @ t) =
           join sep (map (\<lambda>x. []) xs) @ outside_quotes d False t
         \<and> in_quote_after d False (join sep (map qn xs) @ t) = in_quote_after d False t"
  using assms
proof (induction xs rule: induct_list012)
  case 1
  then show ?case by simp
next
  case (2 x)
  then show ?case by (simp add: quoted_then)
next
  case (3 x y zs)
  then show ?case by (simp add: quoted_then plain_then)
qed

lemma quote_name_example_quoted:
  "double_quote \<notin> set identifier \<Longrightarrow> quoted double_quote (quote_name_example identifier)"
  by (simp add: quoted_def quote_name_example_def outside_quotes_append in_quote_after_append
        inside_text)

text \<open>
  The builder with a backend whose \<^verbatim>\<open>quote_name\<close> encloses each of the identifiers passed
  in the delimiter \<open>d\<close>: outside the quoting delimiters the SQL text is the fixed text of
  the statement alone, and for the update the text of the \<^verbatim>\<open>WHERE\<close> clause when one is
  given.
\<close>

lemma builder_outside_quotes:
  "(d \<notin> set builder_text \<and> (\<forall>x \<in> set (source_table # target_table # columns). quoted d (qn x))
      \<longrightarrow> outside_quotes d False
            (sql (build_insert_select qn source_table target_table columns rsql)) =
          ''INSERT INTO  ('' @ join '', '' (map (\<lambda>c. []) columns) @ '') SELECT ''
            @ join '', '' (map (\<lambda>c. []) columns) @ '' FROM '')
   \<and> (d \<notin> set builder_text \<and> (\<forall>x \<in> set [table, new_column, old_column]. quoted d (qn x))
      \<longrightarrow> outside_quotes d False
            (sql (build_update_field_copy qn table new_column old_column where_clause rsql)) =
          ''UPDATE  SET  = ''
            @ (if truthy where_clause
               then '' WHERE '' @ outside_quotes d False (the where_clause) else []))"
proof (intro conjI impI)
  assume a: "d \<notin> set builder_text \<and>
             (\<forall>x \<in> set (source_table # target_table # columns). quoted d (qn x))"
  then have d: "d \<notin> set ''INSERT INTO ''" "d \<notin> set '' (''" "d \<notin> set '') ''"
    "d \<notin> set ''SELECT ''" "d \<notin> set '' FROM ''" "d \<notin> set '', ''"
    by (auto simp add: builder_text_def)
  from a have q: "quoted d (qn source_table)" "quoted d (qn target_table)"
    and qs: "\<forall>x \<in> set columns. quoted d (qn x)"
    by simp_all
  have t: "outside_quotes d False (qn target_table) = []"
    using q(2) by (simp add: quoted_def)
  have j: "outside_quotes d False (join '', '' (map qn columns) @ t) =
             join '', '' (map (\<lambda>c. []) columns) @ outside_quotes d False t" for t
    using joined_then [OF qs d(6)] by simp
  have main: "outside_quotes d False
          (''INSERT INTO '' @ qn source_table @ '' ('' @ join '', '' (map qn columns)
             @ '') '' @ ''SELECT '' @ join '', '' (map qn columns)
             @ '' FROM '' @ qn target_table) =
        ''INSERT INTO '' @ '' ('' @ join '', '' (map (\<lambda>c. []) columns) @ '') ''
          @ ''SELECT '' @ join '', '' (map (\<lambda>c. []) columns) @ '' FROM ''"
    by (simp only: plain_then(1) [OF d(1)] plain_then(1) [OF d(2)] plain_then(1) [OF d(3)]
          plain_then(1) [OF d(4)] plain_then(1) [OF d(5)] quoted_then(1) [OF q(1)] j t
          append_Nil2)
  have lit: "''INSERT INTO '' @ '' ('' @ g @ '') '' @ ''SELECT '' @ g @ '' FROM '' =
             ''INSERT INTO  ('' @ g @ '') SELECT '' @ g @ '' FROM ''" for g :: string
    by simp
  show "outside_quotes d False
          (sql (build_insert_select qn source_table target_table columns rsql)) =
        ''INSERT INTO  ('' @ join '', '' (map (\<lambda>c. []) columns) @ '') SELECT ''
          @ join '', '' (map (\<lambda>c. []) columns) @ '' FROM ''"
    unfolding build_insert_select_def Let_def quote_identifier_def operation.sel
    by (simp only: main lit)
next
  assume a: "d \<notin> set builder_text \<and>
             (\<forall>x \<in> set [table, new_column, old_column]. quoted d (qn x))"
  then have d: "d \<notin> set ''UPDATE ''" "d \<notin> set '' SET ''" "d \<notin> set '' = ''"
    "d \<notin> set '' WHERE ''"
    by (auto simp add: builder_text_def)
  from a have q: "quoted d (qn table)" "quoted d (qn new_column)" "quoted d (qn old_column)"
    by simp_all
  have main: "outside_quotes d False
          (''UPDATE '' @ qn table @ '' SET '' @ qn new_column @ '' = '' @ qn old_column @ w) =
        ''UPDATE '' @ '' SET '' @ '' = '' @ outside_quotes d False w" for w
    by (simp only: plain_then(1) [OF d(1)] plain_then(1) [OF d(2)] plain_then(1) [OF d(3)]
          quoted_then(1) [OF q(1)] quoted_then(1) [OF q(2)] quoted_then(1) [OF q(3)])
  have lit: "''UPDATE '' @ '' SET '' @ '' = '' @ w = ''UPDATE  SET  = '' @ w" for w :: string
    by simp
  show "outside_quotes d False
            (sql (build_update_field_copy qn table new_column old_column where_clause rsql)) =
          ''UPDATE  SET  = ''
            @ (if truthy where_clause
               then '' WHERE '' @ outside_quotes d False (the where_clause) else [])"
  proof (cases "truthy where_clause")
    case True
    then show ?thesis
      unfolding build_update_field_copy_def Let_def quote_identifier_def
      using main [of "'' WHERE '' @ the where_clause"]
      by (simp only: if_True operation.sel append_assoc plain_then(1) [OF d(4)] lit)
  next
    case False
    then show ?thesis
      unfolding build_update_field_copy_def Let_def quote_identifier_def
      using main [of "[]"] lit [of "[]"]
      by (simp only: if_False operation.sel append_Nil2 outside_quotes.simps(1))
  qed
qed

text \<open>
  C8 (as amended). For every call of \<^verbatim>\<open>build_insert_select\<close> and of
  \<^verbatim>\<open>build_update_field_copy\<close> in which the backend's \<^verbatim>\<open>quote_name\<close> encloses each table
  and column identifier passed in its delimiter, the SQL text outside the quoting
  delimiters is the fixed text of the statement alone (and, for the update, the text of
  the \<^verbatim>\<open>WHERE\<close> clause when one is given), so no character of an identifier stands outside
  its delimiters. With the quoting of the docstring of \<^verbatim>\<open>quote_identifier\<close>, the name
  between two double quotes, this holds for every call whose identifiers contain no
  double quote, whatever spaces, dashes or reserved words they contain.
\<close>

theorem builder_identifiers_quoted:
  "(d \<notin> set builder_text \<and> (\<forall>x \<in> set (source_table # target_table # columns). quoted d (qn x))
      \<longrightarrow> outside_quotes d False
            (sql (build_insert_select qn source_table target_table columns rsql)) =
          ''INSERT INTO  ('' @ join '', '' (map (\<lambda>c. []) columns) @ '') SELECT ''
            @ join '', '' (map (\<lambda>c. []) columns) @ '' FROM '')
   \<and> (d \<notin> set builder_text \<and> (\<forall>x \<in> set [table, new_column, old_column]. quoted d (qn x))
      \<longrightarrow> outside_quotes d False
            (sql (build_update_field_copy qn table new_column old_column where_clause rsql)) =
          ''UPDATE  SET  = ''
            @ (if truthy where_clause
               then '' WHERE '' @ outside_quotes d False (the where_clause) else []))
   \<and> ((\<forall>x \<in> set (source_table # target_table # columns). double_quote \<notin> set x)
      \<longrightarrow> outside_quotes double_quote False
            (sql (build_insert_select quote_name_example source_table target_table columns
                    rsql)) =
          ''INSERT INTO  ('' @ join '', '' (map (\<lambda>c. []) columns) @ '') SELECT ''
            @ join '', '' (map (\<lambda>c. []) columns) @ '' FROM '')
   \<and> ((\<forall>x \<in> set [table, new_column, old_column]. double_quote \<notin> set x)
      \<longrightarrow> outside_quotes double_quote False
            (sql (build_update_field_copy quote_name_example table new_column old_column
                    where_clause rsql)) =
          ''UPDATE  SET  = ''
            @ (if truthy where_clause
               then '' WHERE '' @ outside_quotes double_quote False (the where_clause)
               else []))"
proof -
  have d: "double_quote \<notin> set builder_text"
    by (simp add: builder_text_def double_quote_def)
  note g = builder_outside_quotes
  show ?thesis
    using g [of d source_table target_table columns qn rsql table new_column old_column
               where_clause]
      g [where d = double_quote and qn = quote_name_example and source_table = source_table
           and target_table = target_table and columns = columns and rsql = rsql
           and table = table and new_column = new_column and old_column = old_column
           and where_clause = where_clause]
      d
    by (simp add: quote_name_example_quoted)
qed

text \<open>
  The call \<^verbatim>\<open>build_insert_select("a-b", "c d", ["x-1", "y 2"])\<close> of the specification, and
  an update of a column named by a reserved word.
\<close>

theorem builder_identifiers_quoted_witness:
  "outside_quotes double_quote False
     (sql (build_insert_select quote_name_example ''a-b'' ''c d'' [''x-1'', ''y 2''] None)) =
   ''INSERT INTO  (, ) SELECT ,  FROM ''
   \<and> outside_quotes double_quote False
     (sql (build_update_field_copy quote_name_example ''my table'' ''select'' ''old-name''
             None None)) =
   ''UPDATE  SET  = ''"
proof -
  have q: "quoted double_quote (quote_name_example ''a-b'')"
    "quoted double_quote (quote_name_example ''c d'')"
    "quoted double_quote (quote_name_example ''x-1'')"
    "quoted double_quote (quote_name_example ''y 2'')"
    "quoted double_quote (quote_name_example ''my table'')"
    "quoted double_quote (quote_name_example ''select'')"
    "quoted double_quote (quote_name_example ''old-name'')"
    by (rule quote_name_example_quoted, simp add: double_quote_def)+
  have n: "\<forall>x \<in> set (''a-b'' # ''c d'' # [''x-1'', ''y 2'']). double_quote \<notin> set x"
    "\<forall>x \<in> set [''my table'', ''select'', ''old-name'']. double_quote \<notin> set x"
    by (simp_all add: double_quote_def)
  have d: "double_quote \<notin> set builder_text"
    by (simp add: builder_text_def double_quote_def)
  show ?thesis
    using builder_identifiers_quoted
            [where d = double_quote and qn = quote_name_example and source_table = "''a-b''"
               and target_table = "''c d''" and columns = "[''x-1'', ''y 2'']" and rsql = None
               and table = "''my table''" and new_column = "''select''"
               and old_column = "''old-name''" and where_clause = None]
      d q n
    by (simp add: truthy_def)
qed

text \<open>
  C8 as stated fails for an identifier that contains the delimiter. With the quoting of
  the docstring, the update of table \<^verbatim>\<open>t\<close> that copies column \<^verbatim>\<open>c\<close> into a column named
  \<^verbatim>\<open>a"b\<close> is \<^verbatim>\<open>UPDATE "t" SET "a"b" = "c"\<close>: the \<^verbatim>\<open>b\<close> of the new column and the whole of
  the old column \<^verbatim>\<open>c\<close> stand outside the quoting delimiters.
\<close>

theorem builder_delimiter_in_identifier_counterexample:
  "sql (build_update_field_copy quote_name_example ''t'' (''a'' @ [double_quote] @ ''b'') ''c''
          None None) =
     ''UPDATE '' @ [double_quote] @ ''t'' @ [double_quote] @ '' SET ''
       @ [double_quote] @ ''a'' @ [double_quote] @ ''b'' @ [double_quote]
       @ '' = '' @ [double_quote] @ ''c'' @ [double_quote]
   \<and> outside_quotes double_quote False
       (sql (build_update_field_copy quote_name_example ''t'' (''a'' @ [double_quote] @ ''b'')
               ''c'' None None)) =
     ''UPDATE  SET bc''"
  by (simp add: build_update_field_copy_def quote_identifier_def quote_name_example_def
        truthy_def double_quote_def)

subsection \<open>Splitting again what was split\<close>

text \<open>
  C9. When \<^verbatim>\<open>split_operations\<close> has produced a blue list and a green list, applying it to
  their concatenation returns the same two lists: the re-merged result is the input
  itself, and so has the same instruction classes and the same object names. This holds
  for every input list, with or without impossible instructions.
\<close>

theorem split_operations_idempotent:
  assumes "split_operations qn apps app operations = Inr (blue_list, green_list)"
  shows "split_operations qn apps app (blue_list @ green_list) = Inr (blue_list, green_list)"
proof -
  from split_operations_phases [OF assms]
  have b: "list_all stays_blue blue_list" and g: "list_all stays_green green_list" by simp_all
  show ?thesis
    by (simp add: split_operations_append split_operations_stays_blue [OF b]
          split_operations_stays_green [OF g])
qed

theorem split_operations_idempotent_witness:
  "split_operations quote_name_example example_apps ''shop''
     ([new_CreateModelPatched ''Book'' (meta_fields example_model) ''Tome'',
       build_insert_select quote_name_example ''shop_tome'' ''shop_book'' [''id'', ''title''] None]
      @ [DeleteModel ''Tome'', DeleteModel ''Shelf'']) =
   Inr ([new_CreateModelPatched ''Book'' (meta_fields example_model) ''Tome'',
         build_insert_select quote_name_example ''shop_tome'' ''shop_book'' [''id'', ''title''] None],
        [DeleteModel ''Tome'', DeleteModel ''Shelf''])"
  using split_operations_idempotent [OF example_split] .

text \<open>
  C10. \<^verbatim>\<open>split_operations\<close> does not raise on an instruction whose class is in
  \<^verbatim>\<open>IMPOSSIBLE_OPERATIONS\<close>: \<^verbatim>\<open>split_operation\<close> returns it alone in blue with \<^verbatim>\<open>None\<close> in
  green; a list of such instructions is returned whole as the blue list with an empty
  green list; and in any list the instruction is put unchanged at its place in the
  blue list, the only errors being those of the instructions before and after it.
\<close>

theorem split_operations_impossible_to_blue:
  "(is_impossible operation
      \<longrightarrow> split_operation qn apps app operation = Inr ([Some operation], [None]))
   \<and> (list_all is_impossible operations
      \<longrightarrow> split_operations qn apps app operations = Inr (operations, []))
   \<and> (is_impossible operation
      \<longrightarrow> split_operations qn apps app (before @ operation # after) =
          (case split_operations qn apps app before of
             Inl e \<Rightarrow> Inl e
           | Inr (b1, g1) \<Rightarrow>
               (case split_operations qn apps app after of
                  Inl e \<Rightarrow> Inl e
                | Inr (b2, g2) \<Rightarrow> Inr (b1 @ operation # b2, g1 @ g2))))"
proof (intro conjI impI)
  assume "is_impossible operation"
  then show "split_operation qn apps app operation = Inr ([Some operation], [None])"
    by (rule split_operation_impossible)
next
  assume "list_all is_impossible operations"
  then have "list_all stays_blue operations"
    by (induction operations) (simp_all add: is_impossible_stays_blue)
  then show "split_operations qn apps app operations = Inr (operations, [])"
    by (rule split_operations_stays_blue)
next
  assume imp: "is_impossible operation"
  show "split_operations qn apps app (before @ operation # after) =
          (case split_operations qn apps app before of
             Inl e \<Rightarrow> Inl e
           | Inr (b1, g1) \<Rightarrow>
               (case split_operations qn apps app after of
                  Inl e \<Rightarrow> Inl e
                | Inr (b2, g2) \<Rightarrow> Inr (b1 @ operation # b2, g1 @ g2)))"
    by (simp add: split_operations_append split_operations_Cons
          split_operation_impossible [OF imp] split: sum.splits prod.splits)
qed

theorem split_operations_impossible_to_blue_witness:
  "split_operation quote_name_example example_apps ''shop'' (AlterModelOptions ''book'') =
     Inr ([Some (AlterModelOptions ''book'')], [None])
   \<and> split_operations quote_name_example example_apps ''shop''
       [AlterModelOptions ''book'', AlterModelManagers ''book''] =
     Inr ([AlterModelOptions ''book'', AlterModelManagers ''book''], [])
   \<and> split_operations quote_name_example example_apps ''shop''
       ([RenameModel ''Tome'' ''Book'', DeleteModel ''Shelf''] @ AlterModelOptions ''book''
          # [RemoveField ''book'' ''isbn'']) =
     Inr ([new_CreateModelPatched ''Book'' (meta_fields example_model) ''Tome'',
           build_insert_select quote_name_example ''shop_tome'' ''shop_book'' [''id'', ''title'']
             None,
           AlterModelOptions ''book''],
          [DeleteModel ''Tome'', DeleteModel ''Shelf'', RemoveField ''book'' ''isbn''])"
proof -
  have i: "is_impossible (AlterModelOptions ''book'')"
    "list_all is_impossible [AlterModelOptions ''book'', AlterModelManagers ''book'']"
    by (simp_all add: is_impossible_def IMPOSSIBLE_OPERATIONS_def)
  have a: "split_operations quote_name_example example_apps ''shop'' [RemoveField ''book'' ''isbn'']
             = Inr ([], [RemoveField ''book'' ''isbn''])"
    by (simp add: split_operations_def split_operation_unfold)
  show ?thesis
    using split_operations_impossible_to_blue [of "AlterModelOptions ''book''" quote_name_example example_apps "''shop''"
                 "[AlterModelOptions ''book'', AlterModelManagers ''book'']"
                 "[RenameModel ''Tome'' ''Book'', DeleteModel ''Shelf'']"
                 "[RemoveField ''book'' ''isbn'']"]
      i
    by (simp add: example_split a)
qed

end
